theory Spec2Isabelle
  imports Complex_Main "HOL-Library.Log_Nat"
begin

section \<open>Python values, errors and the global filter dictionary\<close>

text \<open>
  The quantizer of \<^verbatim>\<open>pyfda/libs/pyfda_fix_lib.py\<close> and the direct-form filter of
  \<^verbatim>\<open>pyfda/fixpoint_widgets/iir_df1/iir_df1_pyfixp.py\<close> are embedded as functions on
  explicit state. Floating point numbers are modelled as exact reals: every statement
  below is about the arithmetic the source writes down, not about IEEE rounding.
  An exception is a value \<open>Inl e\<close>; a normal return is \<open>Inr\<close> of the result paired with
  the updated object.
\<close>

datatype error =
    KeyError string
  | TypeError
  | IndexError
  | ValueError
  | OverflowError
  | UnboundLocalError
  | Exception string

definition bindE :: "error + 'a \<Rightarrow> ('a \<Rightarrow> error + 'b) \<Rightarrow> error + 'b" where
  "bindE m f = (case m of Inl e \<Rightarrow> Inl e | Inr v \<Rightarrow> f v)"

text \<open>
  The argument of \<^verbatim>\<open>fixp\<close> and \<^verbatim>\<open>fxfilter\<close>: \<^verbatim>\<open>None\<close>, a float scalar or a
  one-dimensional array of floats. (Complex numbers and arrays of strings or integers are
  outside the model; a string scalar, which \<^verbatim>\<open>fixp\<close> coerces first, is converted where
  \<^verbatim>\<open>frmt2float_scalar\<close> passes one.)
\<close>

datatype pyval = PyNone | Scalar real | Array "real list"

text \<open>The entries of \<^verbatim>\<open>fb.fil[0]\<close> that the code reads.\<close>

record fil =
  qfrmt :: string
  fx_base :: string
  ba :: "real list \<times> real list"

text \<open>
  A quantization dictionary as a caller passes it: each of the keys of
  \<^verbatim>\<open>q_dict_default\<close> may be missing, and keys unknown to \<^verbatim>\<open>Fixed\<close> may be present
  (they are logged and kept).
\<close>

record pdict =
  k_wdg_name :: "string option"
  k_WI :: "int option"
  k_WF :: "int option"
  k_w_a_m :: "string option"
  k_quant :: "string option"
  k_ovfl :: "string option"
  k_N_over :: "int option"
  k_unknown :: "string list"

definition empty_dict :: pdict where
  "empty_dict = \<lparr>k_wdg_name = None, k_WI = None, k_WF = None, k_w_a_m = None,
     k_quant = None, k_ovfl = None, k_N_over = None, k_unknown = []\<rparr>"

definition count_key :: "'a option \<Rightarrow> nat" where
  "count_key v = (case v of None \<Rightarrow> 0 | Some _ \<Rightarrow> 1)"

definition dict_len :: "pdict \<Rightarrow> nat" where
  "dict_len d = count_key (k_wdg_name d) + count_key (k_WI d) + count_key (k_WF d)
     + count_key (k_w_a_m d) + count_key (k_quant d) + count_key (k_ovfl d)
     + count_key (k_N_over d) + length (remdups (k_unknown d))"

text \<open>
  The dictionary \<^verbatim>\<open>self.q_dict\<close> of a constructed \<^verbatim>\<open>Fixed\<close> object: the constructor
  fills in every default key, and no method deletes one.
\<close>

record qdict =
  wdg_name :: string
  WI :: int
  WF :: int
  w_a_m :: string
  quant :: string
  ovfl :: string
  N_over_key :: int
  unknown :: "string list"

definition q_dict_default :: qdict where
  "q_dict_default = \<lparr>wdg_name = ''unknown'', WI = 0, WF = 15, w_a_m = ''m'',
     quant = ''round'', ovfl = ''sat'', N_over_key = 0, unknown = []\<rparr>"

definition pick :: "'a option \<Rightarrow> 'a \<Rightarrow> 'a" where
  "pick v dflt = (case v of None \<Rightarrow> dflt | Some x \<Rightarrow> x)"

text \<open>\<^verbatim>\<open>self.q_dict.update(d)\<close>: keys of \<open>d\<close> override, the others stay.\<close>

definition dict_update :: "qdict \<Rightarrow> pdict \<Rightarrow> qdict" where
  "dict_update q d = \<lparr>wdg_name = pick (k_wdg_name d) (wdg_name q),
     WI = pick (k_WI d) (WI q), WF = pick (k_WF d) (WF q),
     w_a_m = pick (k_w_a_m d) (w_a_m q), quant = pick (k_quant d) (quant q),
     ovfl = pick (k_ovfl d) (ovfl q), N_over_key = pick (k_N_over d) (N_over_key q),
     unknown = unknown q @ filter (\<lambda>k. k \<notin> set (unknown q)) (remdups (k_unknown d))\<rparr>"

text \<open>The dictionary of a quantizer, seen again as a caller's dictionary (all keys present).\<close>

definition as_pdict :: "qdict \<Rightarrow> pdict" where
  "as_pdict q = \<lparr>k_wdg_name = Some (wdg_name q), k_WI = Some (WI q), k_WF = Some (WF q),
     k_w_a_m = Some (w_a_m q), k_quant = Some (quant q), k_ovfl = Some (ovfl q),
     k_N_over = Some (N_over_key q), k_unknown = unknown q\<rparr>"

section \<open>The quantizer object\<close>

record Fixed =
  q_dict :: qdict
  LSB :: real
  MSB :: real
  MAX_q :: real
  MIN_q :: real
  N :: int
  N_over :: int
  N_over_pos :: int
  N_over_neg :: int
  places :: int
  scale :: real

text \<open>\<open>2 ** e\<close> for an integer exponent of either sign.\<close>

definition pow2 :: "int \<Rightarrow> real" where
  "pow2 e = (if 0 \<le> e then 2 ^ nat e else 1 / 2 ^ nat (- e))"

text \<open>
  The number of places in decimal display, \<^verbatim>\<open>int(np.ceil(np.log10(W) * np.log10(2.))) + 1\<close>:
  \<^verbatim>\<open>int\<close> raises on the infinity that \<open>W = 0\<close> gives and on the NaN of a negative \<open>W\<close>.
\<close>

definition log10_places :: "int \<Rightarrow> int" where
  [code del]: "log10_places W = \<lceil>log 10 (of_int W) * log 10 2\<rceil> + 1"

definition places_dec :: "int \<Rightarrow> error + int" where
  "places_dec W = (if W = 0 then Inl OverflowError else if W < 0 then Inl ValueError
     else Inr (log10_places W))"

definition set_places :: "fil \<Rightarrow> int \<Rightarrow> error + int" where
  "set_places fb W =
    (if fx_base fb = ''dec'' then places_dec W
     else if fx_base fb = ''bin'' then Inr (W + 1)
     else if fx_base fb = ''csd'' then Inr (\<lceil>of_int W / (3 / 2 :: real)\<rceil> + 1)
     else if fx_base fb = ''hex'' then Inr (\<lceil>of_int W / (4 :: real)\<rceil> + 1)
     else if qfrmt fb = ''float'' then Inr 4
     else Inl (Exception ''Unknown number format''))"

definition set_qdict :: "fil \<Rightarrow> Fixed \<Rightarrow> pdict \<Rightarrow> error + Fixed" where
  "set_qdict fb self d =
    (let qd = dict_update (q_dict self) d;
         qd = qd\<lparr>WI := WI qd\<rparr>;
         qd = qd\<lparr>WF := \<bar>WF qd\<bar>\<rparr>;
         self = self\<lparr>q_dict := qd\<rparr>;
         self = (if qfrmt fb = ''qint''
                 then self\<lparr>LSB := 1, MSB := pow2 (WI qd + WF qd - 1)\<rparr>
                 else self\<lparr>LSB := pow2 (- WF qd), MSB := pow2 (WI qd - 1)\<rparr>);
         self = self\<lparr>MAX_q := 2 * MSB self - LSB self\<rparr>;
         self = self\<lparr>MIN_q := - 2 * MSB self\<rparr>;
         W = WI qd + WF qd + 1
     in bindE (set_places fb W) (\<lambda>p. Inr (self\<lparr>places := p\<rparr>)))"

definition resetN :: "Fixed \<Rightarrow> Fixed" where
  "resetN self = self\<lparr>q_dict := (q_dict self)\<lparr>N_over_key := 0\<rparr>,
     N_over_pos := 0, N_over_neg := 0, N_over := 0, N := 0\<rparr>"

text \<open>
  The constructor \<^verbatim>\<open>Fixed.__init__\<close>: default attributes, the default keys filled into
  the passed dictionary, then \<^verbatim>\<open>set_qdict({})\<close> and \<^verbatim>\<open>resetN()\<close>.
\<close>

definition Fixed_init :: "fil \<Rightarrow> pdict \<Rightarrow> error + Fixed" where
  "Fixed_init fb d =
    (let lsb = pow2 (- WF q_dict_default);
         msb = pow2 (WF q_dict_default - 1);
         self = \<lparr>q_dict = dict_update q_dict_default d, LSB = lsb, MSB = msb,
                 MAX_q = 2 * msb - lsb, MIN_q = - 2 * msb, N = 0, N_over = 0,
                 N_over_pos = 0, N_over_neg = 0, places = 0, scale = 1\<rparr>
     in bindE (set_qdict fb self empty_dict) (\<lambda>self. Inr (resetN self)))"

subsection \<open>Quantization\<close>

text \<open>\<^verbatim>\<open>np.round\<close> and \<^verbatim>\<open>np.rint\<close> round a tie to the even neighbour; \<^verbatim>\<open>np.fix\<close> truncates.\<close>

definition np_round :: "real \<Rightarrow> real" where
  "np_round x =
    (let f = \<lfloor>x\<rfloor>; d = x - of_int f
     in of_int (if d < 1 / 2 then f else if 1 / 2 < d then f + 1
                else if even f then f else f + 1))"

definition np_fix :: "real \<Rightarrow> real" where
  "np_fix x = (if 0 \<le> x then of_int \<lfloor>x\<rfloor> else of_int \<lceil>x\<rceil>)"

text \<open>
  Step (3) of \<^verbatim>\<open>fixp\<close> on the array scaled by \<open>2 ** WF\<close>. The optional
  \<^verbatim>\<open>deltasigma\<close> toolbox is taken as not installed (\<^verbatim>\<open>DS = False\<close>), so that
  \<^verbatim>\<open>'dsm'\<close> raises.
\<close>

definition requant :: "string \<Rightarrow> real list \<Rightarrow> error + real list" where
  "requant m y =
    (if m = ''floor'' then Inr (map (\<lambda>v. of_int \<lfloor>v\<rfloor>) y)
     else if m = ''round'' then Inr (map np_round y)
     else if m = ''fix'' then Inr (map np_fix y)
     else if m = ''ceil'' then Inr (map (\<lambda>v. of_int \<lceil>v\<rceil>) y)
     else if m = ''rint'' then Inr (map np_round y)
     else if m = ''dsm'' then Inl (Exception ''deltasigma Toolbox not found'')
     else if m = ''none'' then Inr y
     else Inl (Exception ''Unknown Requantization type''))"

text \<open>The wrap expression of step (4), for one element.\<close>

definition wrap :: "real \<Rightarrow> real \<Rightarrow> real" where
  "wrap msb yq = yq - 4 * msb * np_fix ((sgn yq * 2 * msb + yq) / (4 * msb))"

definition count_true :: "bool list \<Rightarrow> int" where
  "count_true bs = int (length (filter (\<lambda>b. b) bs))"

text \<open>
  Step (4): overflow flags against the stored \<open>MIN\<close> and \<open>MAX\<close>, the counters, then
  saturation or wrap-around. With \<^verbatim>\<open>'none'\<close> the three overflow counters are set to zero.
\<close>

definition overflow :: "Fixed \<Rightarrow> real list \<Rightarrow> error + (real list \<times> Fixed)" where
  "overflow self yq =
    (if ovfl (q_dict self) = ''none''
     then Inr (yq, self\<lparr>N_over_neg := 0, N_over_pos := 0, N_over := 0\<rparr>)
     else
       let over_neg = map (\<lambda>v. v < MIN_q self) yq;
           over_pos = map (\<lambda>v. MAX_q self < v) yq;
           self = self\<lparr>N_over_neg := N_over_neg self + count_true over_neg\<rparr>;
           self = self\<lparr>N_over_pos := N_over_pos self + count_true over_pos\<rparr>;
           self = self\<lparr>N_over := N_over_neg self + N_over_pos self\<rparr>
       in if ovfl (q_dict self) = ''sat''
          then let yq1 = map (\<lambda>v. if MAX_q self < v then MAX_q self else v) yq;
                   yq2 = map (\<lambda>(v0, v). if v0 < MIN_q self then MIN_q self else v) (zip yq yq1)
               in Inr (yq2, self)
          else if ovfl (q_dict self) = ''wrap''
          then Inr (map (\<lambda>v. if MAX_q self < v \<or> v < MIN_q self then wrap (MSB self) v else v) yq,
                    self)
          else Inl (Exception ''Unknown overflow type''))"

text \<open>\<^verbatim>\<open>str.lower\<close> on ASCII.\<close>

definition lower_char :: "char \<Rightarrow> char" where
  "lower_char c = (let n = (of_char c :: nat) in if 65 \<le> n \<and> n \<le> 90 then char_of (n + 32) else c)"

definition lower :: "string \<Rightarrow> string" where
  "lower s = map lower_char s"

text \<open>The elements of the argument, and the result in the shape of the argument.\<close>

definition elems :: "pyval \<Rightarrow> real list" where
  "elems y = (case y of PyNone \<Rightarrow> [0] | Scalar v \<Rightarrow> [v] | Array vs \<Rightarrow> vs)"

definition reshape :: "pyval \<Rightarrow> real list \<Rightarrow> pyval" where
  "reshape y vs = (case y of Array _ \<Rightarrow> Array vs | _ \<Rightarrow> Scalar (hd vs))"

text \<open>
  \<^verbatim>\<open>fixp\<close>, steps (1) to (5). The argument is a value and the result a new value: the
  statement \<^verbatim>\<open>y *= 2. ** self.q_dict['WF']\<close>, which for a \<^verbatim>\<open>scaling\<close> other than
  \<^verbatim>\<open>'mult'\<close> and \<^verbatim>\<open>'multdiv'\<close> scales the caller's array in place, appears here by its
  effect on the result only. Numbers are exact reals, so the rounding of a double, and
  \<open>inf\<close> and \<open>nan\<close>, have no counterpart.
\<close>

definition fixp :: "fil \<Rightarrow> Fixed \<Rightarrow> pyval \<Rightarrow> string \<Rightarrow> error + (pyval \<times> Fixed)" where
  "fixp fb self y scaling0 =
    (let scaling = lower scaling0;
         self = self\<lparr>scale := (if qfrmt fb = ''qint'' then pow2 (WF (q_dict self)) else 1)\<rparr>;
         self = self\<lparr>N := N self + int (length (elems y))\<rparr>;
         y1 = (if scaling = ''mult'' \<or> scaling = ''multdiv''
               then map (\<lambda>v. v * scale self) (elems y) else elems y);
         y2 = map (\<lambda>v. v * pow2 (WF (q_dict self))) y1
     in bindE (requant (quant (q_dict self)) y2) (\<lambda>yq.
        bindE (overflow self (map (\<lambda>v. v / pow2 (WF (q_dict self))) yq)) (\<lambda>(yq, self).
          let self = self\<lparr>q_dict := (q_dict self)\<lparr>N_over_key := N_over self\<rparr>\<rparr>;
              yq = (if scaling = ''div'' \<or> scaling = ''multdiv''
                    then map (\<lambda>v. v / scale self) yq else yq)
          in Inr (reshape y yq, self))))"

section \<open>Coefficient quantization\<close>

text \<open>
  \<^verbatim>\<open>quant_coeffs\<close> switches the global display base to decimal for the call (the
  global dictionary is a parameter here, so that nothing has to be restored), resets the
  counters of the quantizer and quantizes the coefficients, all but the first one for a
  recursive filter.
\<close>

definition quant_coeffs :: "fil \<Rightarrow> real list \<Rightarrow> Fixed \<Rightarrow> bool \<Rightarrow> error + (real list \<times> Fixed)" where
  "quant_coeffs fb coeffs QObj recursive =
    (let fb' = fb\<lparr>fx_base := ''dec''\<rparr>;
         QObj = resetN QObj
     in if recursive
        then bindE (fixp fb' QObj (Array (tl coeffs)) ''mult'') (\<lambda>(c, Q). Inr (1 # elems c, Q))
        else bindE (fixp fb' QObj (Array coeffs) ''mult'') (\<lambda>(c, Q). Inr (elems c, Q)))"

section \<open>The direct-form 1 filter\<close>

text \<open>The parameter dictionary \<open>p\<close> with the five quantizer dictionaries the code reads.\<close>

record params =
  QCB :: pdict
  QCA :: pdict
  QACC :: pdict
  QI :: pdict
  QO :: pdict

record IIR_DF1_pyfixp =
  p_attr :: params
  Q_b :: Fixed
  Q_a :: Fixed
  Q_mul :: Fixed
  Q_acc :: Fixed
  Q_O :: Fixed
  a_q :: "real list"
  b_q :: "real list"
  L_attr :: nat
  N_over_filt :: int
  zi_a :: "real list"
  zi_b :: "real list"

definition getk :: "string \<Rightarrow> 'a option \<Rightarrow> error + 'a" where
  "getk name v = (case v of None \<Rightarrow> Inl (KeyError name) | Some x \<Rightarrow> Inr x)"

text \<open>
  \<^verbatim>\<open>int(np.ceil(np.log2(len(self.p['QCB']))))\<close>: the argument of the logarithm is the
  number of keys of the dictionary \<^verbatim>\<open>p['QCB']\<close>; \<^verbatim>\<open>int\<close> raises on the infinity that
  an empty dictionary gives.
\<close>

definition word_growth :: "params \<Rightarrow> error + int" where
  "word_growth p = (if dict_len (QCB p) = 0 then Inl OverflowError
     else Inr (int (ceillog2 (dict_len (QCB p)))))"

definition reset :: "IIR_DF1_pyfixp \<Rightarrow> IIR_DF1_pyfixp" where
  "reset self = self\<lparr>Q_mul := resetN (Q_mul self), Q_acc := resetN (Q_acc self),
     Q_O := resetN (Q_O self), N_over_filt := 0,
     zi_a := replicate (L_attr self - 1) 0, zi_b := replicate (L_attr self - 1) 0\<rparr>"

text \<open>
  The register arguments of \<^verbatim>\<open>init\<close>. A \<^verbatim>\<open>zi_a\<close> of another length than \<open>L - 1\<close>
  reaches a log message that evaluates \<^verbatim>\<open>len(self.L)\<close> on an integer, which raises.
\<close>

definition init_zi_b :: "IIR_DF1_pyfixp \<Rightarrow> real list option \<Rightarrow> IIR_DF1_pyfixp" where
  "init_zi_b self z = (case z of None \<Rightarrow> self | Some zb \<Rightarrow>
     if length zb = L_attr self - 1 then self\<lparr>zi_b := zb\<rparr>
     else if length zb < L_attr self - 1
     then self\<lparr>zi_b := zb @ replicate (L_attr self - 1 - length zb) 0\<rparr>
     else self\<lparr>zi_b := take (L_attr self - 1) zb\<rparr>)"

definition init_zi_a :: "IIR_DF1_pyfixp \<Rightarrow> real list option \<Rightarrow> error + IIR_DF1_pyfixp" where
  "init_zi_a self z = (case z of None \<Rightarrow> Inr self | Some za \<Rightarrow>
     if length za = L_attr self - 1 then Inr (self\<lparr>zi_a := za\<rparr>) else Inl TypeError)"

definition init :: "fil \<Rightarrow> IIR_DF1_pyfixp \<Rightarrow> params \<Rightarrow> real list option \<Rightarrow> real list option
    \<Rightarrow> error + IIR_DF1_pyfixp" where
  "init fb self p z_b z_a =
    (let self = self\<lparr>p_attr := p\<rparr>
     in bindE (word_growth p) (\<lambda>DW.
        bindE (getk ''WI'' (k_WI (QI p))) (\<lambda>wi_i.
        bindE (getk ''WI'' (k_WI (QCB p))) (\<lambda>wi_b.
        bindE (getk ''WF'' (k_WF (QI p))) (\<lambda>wf_i.
        bindE (getk ''WF'' (k_WF (QCB p))) (\<lambda>wf_b.
        let q_mul = (QACC p)\<lparr>k_WI := Some (wi_i + wi_b + DW), k_WF := Some (wf_i + wf_b)\<rparr>
        in bindE (set_qdict fb (Q_b self) (QCB p)) (\<lambda>qb.
           bindE (set_qdict fb (Q_a self) (QCA p)) (\<lambda>qa.
           bindE (set_qdict fb (Q_mul self) q_mul) (\<lambda>qm.
           bindE (set_qdict fb (Q_acc self) (QACC p)) (\<lambda>qacc.
           bindE (set_qdict fb (Q_O self) (QO p)) (\<lambda>qo.
           bindE (quant_coeffs fb (snd (ba fb)) qa True) (\<lambda>(aq, qa).
           bindE (quant_coeffs fb (fst (ba fb)) qb False) (\<lambda>(bq, qb).
           let self = self\<lparr>Q_b := qb, Q_a := qa, Q_mul := qm, Q_acc := qacc, Q_O := qo,
                            a_q := aq, b_q := bq, L_attr := max (length bq) (length aq)\<rparr>;
               self = reset self;
               self = init_zi_b self z_b
           in init_zi_a self z_a)))))))))))))"

text \<open>
  The constructor. Each \<^verbatim>\<open>Fixed\<close> keeps a reference to the dictionary it is given and
  fills the default keys into it, so that \<^verbatim>\<open>init\<close> sees the completed dictionaries of
  \<^verbatim>\<open>QCB\<close>, \<^verbatim>\<open>QCA\<close>, \<^verbatim>\<open>QACC\<close> and \<^verbatim>\<open>QO\<close>; the product quantizer works on a copy
  of \<^verbatim>\<open>QACC\<close> taken before that.
\<close>

definition IIR_DF1_new :: "fil \<Rightarrow> params \<Rightarrow> error + IIR_DF1_pyfixp" where
  "IIR_DF1_new fb p =
    bindE (Fixed_init fb (QCB p)) (\<lambda>qb.
    bindE (Fixed_init fb (QCA p)) (\<lambda>qa.
    bindE (Fixed_init fb (QACC p)) (\<lambda>qm.
    bindE (Fixed_init fb (QACC p)) (\<lambda>qacc.
    bindE (Fixed_init fb (QO p)) (\<lambda>qo.
    let p' = p\<lparr>QCB := as_pdict (q_dict qb), QCA := as_pdict (q_dict qa),
                QACC := as_pdict (q_dict qacc), QO := as_pdict (q_dict qo)\<rparr>;
        self = \<lparr>p_attr = p', Q_b = qb, Q_a = qa, Q_mul = qm, Q_acc = qacc, Q_O = qo,
                a_q = [], b_q = [], L_attr = 0, N_over_filt = 0, zi_a = [], zi_b = []\<rparr>
    in init fb self p' None None)))))"

subsection \<open>Filtering\<close>

text \<open>Elementwise product of two one-dimensional arrays with numpy's broadcasting.\<close>

definition bmul :: "real list \<Rightarrow> real list \<Rightarrow> error + real list" where
  "bmul xs ys =
    (if length xs = length ys then Inr (map (\<lambda>(x, y). x * y) (zip xs ys))
     else if length xs = 1 then Inr (map (\<lambda>y. hd xs * y) ys)
     else if length ys = 1 then Inr (map (\<lambda>x. x * hd ys) xs)
     else Inl ValueError)"

definition scalar_of :: "pyval \<Rightarrow> real" where
  "scalar_of y = (case y of Scalar v \<Rightarrow> v | _ \<Rightarrow> 0)"

definition fit :: "nat \<Rightarrow> real list \<Rightarrow> real list" where
  "fit n z = (if length z = n then z
     else if length z < n then z @ replicate (n - length z) 0 else take n z)"

text \<open>
  One pass of the loop body at time \<open>k\<close>; \<open>zi_b self\<close> is the register joined with the
  input block. The assignment to \<^verbatim>\<open>self.zi_a[0]\<close> raises on an empty register.
\<close>

definition fx_step :: "fil \<Rightarrow> IIR_DF1_pyfixp \<Rightarrow> nat \<Rightarrow> error + (real \<times> IIR_DF1_pyfixp)" where
  "fx_step fb self k =
    bindE (bmul (take (length (b_q self)) (drop k (zi_b self))) (b_q self)) (\<lambda>prod_b.
    bindE (fixp fb (Q_mul self) (Array prod_b) ''mult'') (\<lambda>(xb_q, qm).
    let self = self\<lparr>Q_mul := qm\<rparr>
    in bindE (bmul (zi_a self) (tl (a_q self))) (\<lambda>prod_a.
       bindE (fixp fb (Q_mul self) (Array prod_a) ''mult'') (\<lambda>(xa, qm).
       let self = self\<lparr>Q_mul := qm\<rparr>;
           xa_q = elems xa @ [0]
       in bindE (fixp fb (Q_acc self) (Scalar (sum_list (elems xb_q) - sum_list xa_q)) ''mult'')
            (\<lambda>(yk, qacc).
          let self = self\<lparr>Q_acc := qacc\<rparr>;
              self = self\<lparr>zi_a := (case zi_a self of [] \<Rightarrow> [] | z # zs \<Rightarrow> z # butlast (z # zs))\<rparr>
          in bindE (fixp fb (Q_O self) yk ''mult'') (\<lambda>(yo, qo).
             let self = self\<lparr>Q_O := qo\<rparr>
             in case zi_a self of [] \<Rightarrow> Inl IndexError
                | z # zs \<Rightarrow> Inr (scalar_of yk, self\<lparr>zi_a := scalar_of yo # zs\<rparr>)))))))"

fun fx_loop :: "fil \<Rightarrow> IIR_DF1_pyfixp \<Rightarrow> nat list \<Rightarrow> real list
    \<Rightarrow> error + (real list \<times> IIR_DF1_pyfixp)" where
  "fx_loop fb self [] y_q = Inr (y_q, self)"
| "fx_loop fb self (k # ks) y_q =
     bindE (fx_step fb self k) (\<lambda>(yk, self). fx_loop fb self ks (y_q[k := yk]))"

definition fxfilter :: "fil \<Rightarrow> IIR_DF1_pyfixp \<Rightarrow> pyval \<Rightarrow> real list option \<Rightarrow> real list option
    \<Rightarrow> error + ((pyval \<times> real list \<times> real list) \<times> IIR_DF1_pyfixp)" where
  "fxfilter fb self x z_b z_a =
    (let self = (case z_b of None \<Rightarrow> self
                 | Some zb \<Rightarrow> self\<lparr>zi_b := fit (L_attr self - 1) zb\<rparr>);
         self = (case z_a of None \<Rightarrow> self
                 | Some za \<Rightarrow> self\<lparr>zi_a := fit (L_attr self - 1) za\<rparr>)
     in case x of
          PyNone \<Rightarrow> Inl TypeError
        | Scalar v \<Rightarrow> Inl TypeError
        | Array xs \<Rightarrow>
            let self = self\<lparr>zi_b := zi_b self @ xs\<rparr>
            in bindE (fx_loop fb self [0..<length xs] (replicate (length xs) 0))
                 (\<lambda>(y_q, self).
               let self = self\<lparr>zi_b := (if L_attr self - 1 = 0 then zi_b self
                      else drop (length (zi_b self) - (L_attr self - 1)) (zi_b self))\<rparr>;
                   self = self\<lparr>Q_acc := (Q_acc self)\<lparr>N_over :=
                      N_over (Q_acc self) + N_over (Q_mul self)\<rparr>\<rparr>;
                   self = self\<lparr>Q_mul := resetN (Q_mul self)\<rparr>
               in bindE (fixp fb (Q_O self) (Array (take (length xs) y_q)) ''mult'')
                    (\<lambda>(yo, qo). Inr ((yo, zi_b self, zi_a self), self\<lparr>Q_O := qo\<rparr>))))"

section \<open>Number base conversion\<close>

text \<open>
  \<^verbatim>\<open>float2frmt\<close> renders a quantized value in the display base \<^verbatim>\<open>fb.fil[0]['fx_base']\<close>,
  \<^verbatim>\<open>frmt2float_scalar\<close> parses such a text. Texts are Python strings, modelled as lists
  of characters.
\<close>

subsection \<open>Python strings and integers\<close>

text \<open>The slices \<open>s[i:]\<close> and \<open>s[:i]\<close>, where a negative index counts from the end.\<close>

definition py_drop :: "int \<Rightarrow> 'a list \<Rightarrow> 'a list" where
  "py_drop i s = (if 0 \<le> i then drop (nat i) s else drop (nat (int (length s) + i)) s)"

definition py_take :: "int \<Rightarrow> 'a list \<Rightarrow> 'a list" where
  "py_take i s = (if 0 \<le> i then take (nat i) s else take (nat (int (length s) + i)) s)"

definition bit_char :: "nat \<Rightarrow> char" where
  "bit_char b = (if b = 0 then CHR ''0'' else CHR ''1'')"

text \<open>\<^verbatim>\<open>bin(n)[2:]\<close> for a non-negative \<open>n\<close>.\<close>

function bin_nat :: "nat \<Rightarrow> string" where
  "bin_nat n = (if n < 2 then [bit_char n] else bin_nat (n div 2) @ [bit_char (n mod 2)])"
  by pat_completeness auto
termination
  by (relation "measure id") auto

declare bin_nat.simps [simp del]

text \<open>
  \<^verbatim>\<open>np.binary_repr(num, width)\<close> with a width: the digits of a positive number filled up
  with zeros, the two's complement of a negative number filled up with ones. A width that
  is too small is not an error (the digits are returned in full).
\<close>

definition binary_repr :: "int \<Rightarrow> int \<Rightarrow> string" where
  "binary_repr num width =
    (if num = 0 then replicate (nat (if width = 0 then 1 else width)) CHR ''0''
     else if 0 < num then
       let binary = bin_nat (nat num);
           outwidth = max (int (length binary)) width
       in replicate (nat (outwidth - int (length binary))) CHR ''0'' @ binary
     else
       let poswidth = length (bin_nat (nat (- num)));
           poswidth = (if (2 :: int) ^ (poswidth - 1) = - num then poswidth - 1 else poswidth);
           twocomp = 2 ^ (poswidth + 1) + num;
           binary = bin_nat (nat twocomp);
           outwidth = max (int (length binary)) width
       in replicate (nat (outwidth - int (length binary))) CHR ''1'' @ binary)"

text \<open>
  \<^verbatim>\<open>int(s, base)\<close> for base 2 and 16 on the characters that survive the filters below:
  every character has to be a digit of the base, and there has to be one.
\<close>

definition digit_val :: "char \<Rightarrow> nat option" where
  "digit_val c =
    (let n = (of_char c :: nat)
     in if 48 \<le> n \<and> n \<le> 57 then Some (n - 48)
        else if 65 \<le> n \<and> n \<le> 70 then Some (n - 55)
        else if 97 \<le> n \<and> n \<le> 102 then Some (n - 87)
        else None)"

fun py_int_acc :: "nat \<Rightarrow> nat \<Rightarrow> string \<Rightarrow> nat option" where
  "py_int_acc base acc [] = Some acc"
| "py_int_acc base acc (c # cs) =
     (case digit_val c of
        None \<Rightarrow> None
      | Some d \<Rightarrow> if d < base then py_int_acc base (base * acc + d) cs else None)"

definition py_int :: "nat \<Rightarrow> string \<Rightarrow> nat option" where
  "py_int base s = (if s = [] then None else py_int_acc base 0 s)"

text \<open>
  \<^verbatim>\<open>float(s)\<close> on the characters that survive the decimal filter: an optional minus sign,
  digits with an optional point, an optional exponent. Anything else is no number.
\<close>

definition is_digit :: "char \<Rightarrow> bool" where
  "is_digit c = (48 \<le> (of_char c :: nat) \<and> (of_char c :: nat) \<le> 57)"

definition digits_val :: "string \<Rightarrow> nat" where
  "digits_val s = foldl (\<lambda>a c. 10 * a + ((of_char c :: nat) - 48)) 0 s"

definition py_float_mant :: "string \<Rightarrow> real option" where
  "py_float_mant s =
    (let ip = takeWhile is_digit s; r = dropWhile is_digit s
     in if r = [] then (if ip = [] then None else Some (real (digits_val ip)))
        else if hd r = CHR ''.'' \<and> list_all is_digit (tl r) \<and> (ip = [] \<longrightarrow> tl r \<noteq> [])
        then Some (real (digits_val ip) + real (digits_val (tl r)) / 10 ^ length (tl r))
        else None)"

definition py_float_exp :: "string \<Rightarrow> int option" where
  "py_float_exp s =
    (case s of
       [] \<Rightarrow> None
     | c # cs \<Rightarrow>
         if c = CHR ''-'' then (if cs \<noteq> [] \<and> list_all is_digit cs
                               then Some (- int (digits_val cs)) else None)
         else if list_all is_digit s then Some (int (digits_val s)) else None)"

definition pow10 :: "int \<Rightarrow> real" where
  "pow10 e = (if 0 \<le> e then 10 ^ nat e else 1 / 10 ^ nat (- e))"

definition py_float_unsigned :: "string \<Rightarrow> real option" where
  "py_float_unsigned s =
    (let m = takeWhile (\<lambda>c. c \<noteq> CHR ''e'' \<and> c \<noteq> CHR ''E'') s;
         r = dropWhile (\<lambda>c. c \<noteq> CHR ''e'' \<and> c \<noteq> CHR ''E'') s
     in if r = [] then py_float_mant m
        else case (py_float_mant m, py_float_exp (tl r)) of
               (Some v, Some e) \<Rightarrow> Some (v * pow10 e)
             | _ \<Rightarrow> None)"

definition py_float :: "string \<Rightarrow> real option" where
  "py_float s =
    (case s of
       [] \<Rightarrow> None
     | c # cs \<Rightarrow> if c = CHR ''-'' then map_option uminus (py_float_unsigned cs)
                else py_float_unsigned s)"

subsection \<open>Binary to hexadecimal\<close>

definition wmap :: "string \<Rightarrow> char option" where
  "wmap = map_of [
     (''0000'', CHR ''0''), (''0001'', CHR ''1''), (''0010'', CHR ''2''), (''0011'', CHR ''3''),
     (''0100'', CHR ''4''), (''0101'', CHR ''5''), (''0110'', CHR ''6''), (''0111'', CHR ''7''),
     (''1000'', CHR ''8''), (''1001'', CHR ''9''), (''1010'', CHR ''A''), (''1011'', CHR ''B''),
     (''1100'', CHR ''C''), (''1101'', CHR ''D''), (''1110'', CHR ''E''), (''1111'', CHR ''F'')]"

text \<open>The loop that maps chunks of four binary digits to one hex digit each.\<close>

fun hex_chunks :: "string \<Rightarrow> error + string" where
  "hex_chunks [] = Inr []"
| "hex_chunks (a # b # c # d # rest) =
     (case wmap [a, b, c, d] of
        None \<Rightarrow> Inl (KeyError [a, b, c, d])
      | Some h \<Rightarrow> bindE (hex_chunks rest) (\<lambda>r. Inr (h # r)))"
| "hex_chunks s = Inl (KeyError s)"

definition pad4 :: "nat \<Rightarrow> nat" where
  "pad4 n = (4 - n mod 4) mod 4"

definition bin2hex :: "string \<Rightarrow> int \<Rightarrow> error + string" where
  "bin2hex bin_str WI0 =
    bindE (if 0 < WI0
           then let bin_i_str = py_take (WI0 + 1) bin_str
                in hex_chunks (replicate (pad4 (length bin_i_str)) CHR ''0'' @ bin_i_str)
           else (case bin_str of [] \<Rightarrow> Inl IndexError | c # _ \<Rightarrow> Inr [c])) (\<lambda>hex_str.
    bindE (if 0 < int (length bin_str) - WI0 - 1
           then let bin_f_str = py_drop (WI0 + 1) bin_str
                in bindE (hex_chunks (bin_f_str @ replicate (pad4 (length bin_f_str)) CHR ''0''))
                     (\<lambda>h. Inr (hex_str @ ''.'' @ h))
           else Inr hex_str) (\<lambda>hex_str.
    Inr (if hex_str = [] then ''0'' else hex_str)))"

subsection \<open>Canonically signed digits\<close>

definition ceil_log2 :: "real \<Rightarrow> int" where
  [code del]: "ceil_log2 x = \<lceil>log 2 x\<rceil>"

text \<open>
  One pass of the loop of \<^verbatim>\<open>dec2csd\<close> at exponent \<open>k\<close>, on the digits written so far, the
  remainder and the flag \<^verbatim>\<open>prev_non_zero\<close>.
\<close>

definition csd_step :: "real \<Rightarrow> int \<Rightarrow> string \<times> real \<times> bool \<Rightarrow> string \<times> real \<times> bool" where
  "csd_step dec_val k st =
    (let csd_digits = fst st; remainder = fst (snd st); prev_non_zero = snd (snd st);
         limit = pow2 (k + 1) / 3;
         st1 = (if k = - 1
                then (if csd_digits = []
                      then (if limit < dec_val then (csd_digits @ ''+.'', remainder - 1, True)
                            else if dec_val < - limit then (csd_digits @ ''-.'', remainder + 1, True)
                            else (csd_digits @ ''0.'', remainder, prev_non_zero))
                      else (csd_digits @ ''.'', remainder, prev_non_zero))
                else st);
         csd_digits = fst st1; remainder = fst (snd st1); prev_non_zero = snd (snd st1)
     in if prev_non_zero then (csd_digits @ ''0'', remainder, False)
        else if limit < remainder then (csd_digits @ ''+'', remainder - pow2 k, True)
        else if remainder < - limit then (csd_digits @ ''-'', remainder + pow2 k, True)
        else (csd_digits @ ''0'', remainder, False))"

definition dec2csd :: "real \<Rightarrow> int \<Rightarrow> string" where
  "dec2csd dec_val WF0 =
    (if dec_val = 0 then ''0''
     else
       let k = (if \<bar>dec_val\<bar> < 1 then 0 else ceil_log2 (\<bar>dec_val\<bar> * (3 / 2)));
           ks = map (\<lambda>i. k - 1 - int i) [0..<nat (k + WF0)]
       in fst (fold (csd_step dec_val) ks ([], dec_val, False)))"

definition csd2dec :: "string \<Rightarrow> real" where
  "csd2dec csd_str =
    fold (\<lambda>ii dec_val.
            if csd_str ! ii = CHR ''+'' then dec_val + pow2 (int (length csd_str) - 1 - int ii)
            else if csd_str ! ii = CHR ''-'' then dec_val - pow2 (int (length csd_str) - 1 - int ii)
            else dec_val)
      [0..<length csd_str] 0"

subsection \<open>From a value to its text\<close>

text \<open>
  An element of the result of \<^verbatim>\<open>float2frmt\<close> is a number (decimal base) or a string; the
  result has the shape of the argument.
\<close>

datatype frmt_out = Num real | Str string

datatype frmt_val = FNone | FScalar frmt_out | FArray "frmt_out list"

fun mapE :: "('a \<Rightarrow> error + 'b) \<Rightarrow> 'a list \<Rightarrow> error + 'b list" where
  "mapE f [] = Inr []"
| "mapE f (x # xs) = bindE (f x) (\<lambda>y. bindE (mapE f xs) (\<lambda>ys. Inr (y # ys)))"

definition insert_binary_point :: "string \<Rightarrow> int \<Rightarrow> string" where
  "insert_binary_point bin_str pos = py_take (pos + 1) bin_str @ ''.'' @ py_drop (pos + 1) bin_str"

text \<open>The conversion of one quantized element \<open>y_fix\<close>, by display base.\<close>

definition frmt_elem :: "fil \<Rightarrow> Fixed \<Rightarrow> real \<Rightarrow> error + frmt_out" where
  "frmt_elem fb self y_fix =
    (if fx_base fb = ''dec''
     then (if WF (q_dict self) = 0 \<or> qfrmt fb = ''qint'' then Inr (Num (np_fix y_fix))
           else Inr (Num y_fix))
     else if fx_base fb = ''csd''
     then (if qfrmt fb = ''qint'' then Inr (Str (dec2csd y_fix 0))
           else Inr (Str (dec2csd y_fix (WF (q_dict self)))))
     else if fx_base fb = ''bin'' \<or> fx_base fb = ''hex''
     then
       let y_fix_int = \<lfloor>np_round (y_fix / LSB self)\<rfloor>;
           y_bin_str = binary_repr y_fix_int (WI (q_dict self) + WF (q_dict self) + 1);
           WI0 = (if qfrmt fb = ''qint'' then WI (q_dict self) + WF (q_dict self) + 1
                  else WI (q_dict self))
       in if fx_base fb = ''hex'' then bindE (bin2hex y_bin_str WI0) (\<lambda>h. Inr (Str h))
          else if qfrmt fb = ''qint'' then Inr (Str y_bin_str)
          else Inr (Str (insert_binary_point y_bin_str WI0))
     else Inl (Exception ''Unknown number format''))"

text \<open>
  \<^verbatim>\<open>float2frmt\<close>. In the format \<^verbatim>\<open>'float'\<close> the argument is returned as it is; the
  casts of \<^verbatim>\<open>'float32'\<close> and \<^verbatim>\<open>'float16'\<close> to a shorter floating point type have no
  counterpart on the reals and are modelled as the identity, too. An unknown display base
  raises after the call of \<^verbatim>\<open>fixp\<close>, whatever the argument. \<^verbatim>\<open>bin2hex_vec\<close> and
  \<^verbatim>\<open>insert_binary_point\<close> are made with \<^verbatim>\<open>np.vectorize\<close>, which refuses an array
  without elements.
\<close>

definition float2frmt :: "fil \<Rightarrow> Fixed \<Rightarrow> pyval \<Rightarrow> error + (frmt_val \<times> Fixed)" where
  "float2frmt fb self y =
    (if qfrmt fb = ''float'' \<or> qfrmt fb = ''float32'' \<or> qfrmt fb = ''float16''
     then Inr (case y of PyNone \<Rightarrow> FNone | Scalar v \<Rightarrow> FScalar (Num v)
                | Array vs \<Rightarrow> FArray (map Num vs), self)
     else bindE (fixp fb self y ''mult'') (\<lambda>p.
          if fx_base fb \<noteq> ''dec'' \<and> fx_base fb \<noteq> ''csd'' \<and> fx_base fb \<noteq> ''bin''
             \<and> fx_base fb \<noteq> ''hex''
          then Inl (Exception ''Unknown number format'')
          else if elems (fst p) = []
             \<and> (fx_base fb = ''hex'' \<or> (fx_base fb = ''bin'' \<and> qfrmt fb \<noteq> ''qint''))
          then Inl ValueError
          else
          bindE (mapE (frmt_elem fb (snd p)) (elems (fst p))) (\<lambda>y_str.
            Inr (case fst p of Array _ \<Rightarrow> FArray y_str | _ \<Rightarrow> FScalar (hd y_str), snd p))))"

subsection \<open>From a text to its value\<close>

text \<open>The characters that the regular expressions of \<^verbatim>\<open>FRMT_REGEX\<close> let through.\<close>

definition legal_chars :: "string \<Rightarrow> string option" where
  "legal_chars frmt =
    (if frmt = ''bin'' then Some ''0|1.,-''
     else if frmt = ''csd'' then Some ''0|+-.,''
     else if frmt = ''dec'' then Some ''0123456789Ee|.,-''
     else if frmt = ''hex'' then Some ''0123456789ABCDEFabcdef|.,-''
     else None)"

definition floor_log2 :: "real \<Rightarrow> int" where
  [code del]: "floor_log2 x = \<lfloor>log 2 x\<rfloor>"

text \<open>
  The object after a call of \<^verbatim>\<open>fixp\<close> that has raised: the sample counter has been
  advanced, and for an unknown overflow mode the overflow counters have been updated.
\<close>

definition fixp_failed :: "fil \<Rightarrow> Fixed \<Rightarrow> pyval \<Rightarrow> string \<Rightarrow> Fixed" where
  "fixp_failed fb self y scaling0 =
    (let scaling = lower scaling0;
         self = self\<lparr>scale := (if qfrmt fb = ''qint'' then pow2 (WF (q_dict self)) else 1)\<rparr>;
         self = self\<lparr>N := N self + int (length (elems y))\<rparr>;
         y1 = (if scaling = ''mult'' \<or> scaling = ''multdiv''
               then map (\<lambda>v. v * scale self) (elems y) else elems y);
         y2 = map (\<lambda>v. v * pow2 (WF (q_dict self))) y1
     in case requant (quant (q_dict self)) y2 of
          Inl e \<Rightarrow> self
        | Inr yq0 \<Rightarrow>
            let yq = map (\<lambda>v. v / pow2 (WF (q_dict self))) yq0;
                self = self\<lparr>N_over_neg := N_over_neg self
                               + count_true (map (\<lambda>v. v < MIN_q self) yq)\<rparr>;
                self = self\<lparr>N_over_pos := N_over_pos self
                               + count_true (map (\<lambda>v. MAX_q self < v) yq)\<rparr>
            in self\<lparr>N_over := N_over_neg self + N_over_pos self\<rparr>)"

text \<open>
  The binary and hexadecimal branch up to the call of \<^verbatim>\<open>fixp\<close>: \<open>Inr None\<close> is the early
  \<^verbatim>\<open>return 0\<close>, \<open>Inr (Some y)\<close> the number \<open>y_dec\<close> that is quantized next, \<open>Inl\<close> an
  exception (which the caller catches).
\<close>

definition twos_complement :: "int \<Rightarrow> bool \<Rightarrow> real \<Rightarrow> int \<Rightarrow> real" where
  "twos_complement W neg_sign y_dec int_bits =
    (let y = (if int_bits \<le> W - 1 then y_dec
              else if int_bits = W then y_dec - 2 ^ nat int_bits
              else y_dec)
     in if neg_sign then - y else y)"

definition parse_binhex :: "fil \<Rightarrow> Fixed \<Rightarrow> string \<Rightarrow> string \<Rightarrow> nat \<Rightarrow> error + real option" where
  "parse_binhex fb self frmt raw_str0 frc_places =
    (let W = (if qfrmt fb = ''qint'' then WI (q_dict self) + WF (q_dict self) + 1
              else WI (q_dict self) + 1)
     in case raw_str0 of
          [] \<Rightarrow> Inl IndexError
        | c # _ \<Rightarrow>
          let neg_sign = (c = CHR ''-'');
              raw_str = (if neg_sign then dropWhile (\<lambda>c. c = CHR ''-'') raw_str0 else raw_str0);
              base = (if frmt = ''hex'' then 16 else 2 :: nat)
          in case py_int base raw_str of
               None \<Rightarrow> Inl ValueError
             | Some n \<Rightarrow>
               let y_dec = \<bar>real n / real (base ^ frc_places)\<bar>
               in if y_dec = 0 then Inr None
                  else
                    let int_bits = max (floor_log2 y_dec + 1) 0
                    in if W < int_bits
                       then
                         let raw_str = (if frmt = ''hex'' then bin_nat n else raw_str);
                             raw_str = py_drop (int_bits - W) raw_str
                         in case py_int 2 raw_str of
                              None \<Rightarrow> Inl ValueError
                            | Some n2 \<Rightarrow>
                              let y_dec = real n2 / real (base ^ frc_places)
                              in if y_dec = 0 then Inr None
                                 else Inr (Some (twos_complement W neg_sign y_dec
                                        (max (floor_log2 y_dec + 1) 0)))
                       else Inr (Some (twos_complement W neg_sign y_dec int_bits)))"

text \<open>
  The binary and hexadecimal branch as a whole: every exception, also one of \<^verbatim>\<open>fixp\<close>,
  is caught and gives \<open>0.0\<close>.
\<close>

definition frmt2float_binhex ::
  "fil \<Rightarrow> Fixed \<Rightarrow> string \<Rightarrow> string \<Rightarrow> nat \<Rightarrow> error + (real \<times> Fixed)" where
  "frmt2float_binhex fb self frmt raw_str frc_places =
    (case parse_binhex fb self frmt raw_str frc_places of
       Inl e \<Rightarrow> Inr (0, self)
     | Inr None \<Rightarrow> Inr (0, self)
     | Inr (Some y_dec) \<Rightarrow>
         (case fixp fb self (Scalar y_dec) ''div'' of
            Inl e \<Rightarrow> Inr (0, fixp_failed fb self (Scalar y_dec) ''div'')
          | Inr p \<Rightarrow> Inr (scalar_of (fst p), snd p)))"

text \<open>
  \<^verbatim>\<open>frmt2float_scalar\<close> on the text \<open>str(y)\<close>. In the decimal branch the string goes to
  \<^verbatim>\<open>fixp\<close>, which converts it with \<^verbatim>\<open>float\<close> and takes \<open>0.0\<close> for what is no number
  (a number beyond the range of a double is not modelled); an exception of \<^verbatim>\<open>fixp\<close> is
  caught there, after which the unassigned \<^verbatim>\<open>y_float\<close> is read.
\<close>

definition frmt2float_scalar :: "fil \<Rightarrow> Fixed \<Rightarrow> string \<Rightarrow> error + (real \<times> Fixed)" where
  "frmt2float_scalar fb self y =
    (let frmt = fx_base fb
     in case legal_chars frmt of
          None \<Rightarrow> Inl (KeyError frmt)
        | Some legal \<Rightarrow>
          let val_str = dropWhile (\<lambda>c. c = CHR ''0'') (filter (\<lambda>c. c \<in> set legal) y)
          in if val_str = [] then Inr (0, self)
             else
               let val_str = map (\<lambda>c. if c = CHR '','' then CHR ''.'' else c) val_str;
                   val_str = (if hd val_str = CHR ''.'' then CHR ''0'' # val_str else val_str);
                   frc_places = (if length (filter (\<lambda>c. c = CHR ''.'') val_str) = 1
                                 then length (tl (dropWhile (\<lambda>c. c \<noteq> CHR ''.'') val_str))
                                 else 0);
                   raw_str = filter (\<lambda>c. c \<noteq> CHR ''.'') val_str
               in if frmt = ''dec''
                  then (case fixp fb self
                               (Scalar (case py_float val_str of None \<Rightarrow> 0 | Some v \<Rightarrow> v)) ''div'' of
                          Inl e \<Rightarrow> Inl UnboundLocalError
                        | Inr p \<Rightarrow> Inr (scalar_of (fst p), snd p))
                  else if frmt = ''hex'' \<or> frmt = ''bin''
                  then frmt2float_binhex fb self frmt raw_str frc_places
                  else bindE (fixp fb self (Scalar (csd2dec raw_str / 2 ^ frc_places)) ''div'')
                         (\<lambda>p. Inr (scalar_of (fst p), snd p)))"

section \<open>An elementwise view of the quantizer\<close>

text \<open>
  The definitions of this section are not in the sources. They describe what one call of
  \<^verbatim>\<open>fixp\<close> does to a single element and to the counters, and the lemmas below
  show that \<open>fixp\<close> agrees with them; the theorems about \<open>fixp\<close> are proved through
  this view.
\<close>

definition known_quant :: "string \<Rightarrow> bool" where
  "known_quant m = (m = ''floor'' \<or> m = ''round'' \<or> m = ''fix'' \<or> m = ''ceil''
     \<or> m = ''rint'' \<or> m = ''none'')"

definition known_ovfl :: "string \<Rightarrow> bool" where
  "known_ovfl m = (m = ''none'' \<or> m = ''sat'' \<or> m = ''wrap'')"

definition quant_elem :: "string \<Rightarrow> real \<Rightarrow> real" where
  "quant_elem m v =
    (if m = ''floor'' then of_int \<lfloor>v\<rfloor>
     else if m = ''round'' then np_round v
     else if m = ''fix'' then np_fix v
     else if m = ''ceil'' then of_int \<lceil>v\<rceil>
     else if m = ''rint'' then np_round v
     else v)"

definition ovfl_elem :: "string \<Rightarrow> real \<Rightarrow> real \<Rightarrow> real \<Rightarrow> real \<Rightarrow> real" where
  "ovfl_elem m msb mn mx v =
    (if m = ''sat'' then (if v < mn then mn else if mx < v then mx else v)
     else if m = ''wrap'' then (if mx < v \<or> v < mn then wrap msb v else v)
     else v)"

definition count_over :: "Fixed \<Rightarrow> real list \<Rightarrow> Fixed" where
  "count_over self yq = self\<lparr>
     N_over_neg := N_over_neg self + count_true (map (\<lambda>v. v < MIN_q self) yq),
     N_over_pos := N_over_pos self + count_true (map (\<lambda>v. MAX_q self < v) yq),
     N_over := N_over_neg self + count_true (map (\<lambda>v. v < MIN_q self) yq)
             + (N_over_pos self + count_true (map (\<lambda>v. MAX_q self < v) yq))\<rparr>"

definition scale_of :: "fil \<Rightarrow> Fixed \<Rightarrow> real" where
  "scale_of fb self = (if qfrmt fb = ''qint'' then pow2 (WF (q_dict self)) else 1)"

text \<open>The requantized element, before the overflow step.\<close>

definition requant_elem :: "fil \<Rightarrow> Fixed \<Rightarrow> string \<Rightarrow> real \<Rightarrow> real" where
  "requant_elem fb self sc v =
     quant_elem (quant (q_dict self))
       ((if sc = ''mult'' \<or> sc = ''multdiv'' then v * scale_of fb self else v)
          * pow2 (WF (q_dict self)))
     / pow2 (WF (q_dict self))"

definition fixp_elem :: "fil \<Rightarrow> Fixed \<Rightarrow> string \<Rightarrow> real \<Rightarrow> real" where
  "fixp_elem fb self sc v =
    (if sc = ''div'' \<or> sc = ''multdiv''
     then ovfl_elem (ovfl (q_dict self)) (MSB self) (MIN_q self) (MAX_q self)
            (requant_elem fb self sc v) / scale_of fb self
     else ovfl_elem (ovfl (q_dict self)) (MSB self) (MIN_q self) (MAX_q self)
            (requant_elem fb self sc v))"

definition fixp_state :: "fil \<Rightarrow> Fixed \<Rightarrow> pyval \<Rightarrow> string \<Rightarrow> Fixed" where
  "fixp_state fb self y sc =
    (let s1 = self\<lparr>scale := scale_of fb self, N := N self + int (length (elems y))\<rparr>;
         s2 = (if ovfl (q_dict self) = ''none''
               then s1\<lparr>N_over_neg := 0, N_over_pos := 0, N_over := 0\<rparr>
               else count_over s1 (map (requant_elem fb self sc) (elems y)))
     in s2\<lparr>q_dict := (q_dict s2)\<lparr>N_over_key := N_over s2\<rparr>\<rparr>)"

text \<open>
  The usage of the class docstring, \<^verbatim>\<open>myQ = Fixed(q_dict); myQ.fixp(y)\<close>, as one
  function.
\<close>

definition quantize :: "fil \<Rightarrow> pdict \<Rightarrow> pyval \<Rightarrow> string \<Rightarrow> error + (pyval \<times> Fixed)" where
  "quantize fb d y scaling = bindE (Fixed_init fb d) (\<lambda>q. fixp fb q y scaling)"

text \<open>
  The relations between the stored attributes and the dictionary that \<^verbatim>\<open>set_qdict\<close>
  establishes, for the numeric format \<open>fb\<close> in force; \<^verbatim>\<open>fixp\<close> and \<^verbatim>\<open>resetN\<close> keep
  them.
\<close>

definition configured :: "fil \<Rightarrow> Fixed \<Rightarrow> bool" where
  "configured fb q =
    (LSB q = (if qfrmt fb = ''qint'' then 1 else pow2 (- WF (q_dict q)))
     \<and> MSB q = (if qfrmt fb = ''qint'' then pow2 (WI (q_dict q) + WF (q_dict q) - 1)
                else pow2 (WI (q_dict q) - 1))
     \<and> MAX_q q = 2 * MSB q - LSB q
     \<and> MIN_q q = - 2 * MSB q
     \<and> 0 \<le> WF (q_dict q))"


section \<open>Concrete configurations from the sources\<close>

text \<open>
  The global dictionary as the test suite sets it (\<^verbatim>\<open>'qfrmt': 'qfrac'\<close>,
  \<^verbatim>\<open>'fx_base': 'dec'\<close>), with the coefficient pair \<^verbatim>\<open>fb.fil[0]['ba']\<close> as a parameter,
  and the parameter dictionary of the \<^verbatim>\<open>__main__\<close> block of \<^verbatim>\<open>iir_df1_pyfixp.py\<close>.
\<close>

definition fb_frac :: "real list \<times> real list \<Rightarrow> fil" where
  "fb_frac c = \<lparr>qfrmt = ''qfrac'', fx_base = ''dec'', ba = c\<rparr>"

definition p_main :: params where
  "p_main = \<lparr>
     QCB = empty_dict\<lparr>k_WI := Some 0, k_WF := Some 5, k_w_a_m := Some ''a'',
       k_ovfl := Some ''wrap'', k_quant := Some ''floor'', k_N_over := Some 0\<rparr>,
     QCA = empty_dict\<lparr>k_WI := Some 1, k_WF := Some 5, k_w_a_m := Some ''a'',
       k_ovfl := Some ''wrap'', k_quant := Some ''floor'', k_N_over := Some 0\<rparr>,
     QACC = empty_dict\<lparr>k_WI := Some 4, k_WF := Some 3, k_ovfl := Some ''wrap'',
       k_quant := Some ''round''\<rparr>,
     QI = empty_dict\<lparr>k_WI := Some 2, k_WF := Some 3, k_ovfl := Some ''sat'',
       k_quant := Some ''round''\<rparr>,
     QO = empty_dict\<lparr>k_WI := Some 5, k_WF := Some 3, k_ovfl := Some ''wrap'',
       k_quant := Some ''round''\<rparr>\<rparr>"

text \<open>The configuration \<open>WI = 1\<close>, \<open>WF = 6\<close>, \<^verbatim>\<open>'ovfl': 'wrap'\<close> with a quantization mode \<open>m\<close>.\<close>

definition d_wrap :: "string \<Rightarrow> pdict" where
  "d_wrap m = empty_dict\<lparr>k_WI := Some 1, k_WF := Some 6, k_ovfl := Some ''wrap'', k_quant := Some m\<rparr>"


definition d_sat :: "int \<Rightarrow> int \<Rightarrow> pdict" where
  "d_sat i f = empty_dict\<lparr>k_WI := Some i, k_WF := Some f, k_ovfl := Some ''sat'',
     k_quant := Some ''round''\<rparr>"

text \<open>The fractional format with the display base \<^verbatim>\<open>'csd'\<close>.\<close>

definition fb_csd :: fil where
  "fb_csd = \<lparr>qfrmt = ''qfrac'', fx_base = ''csd'', ba = ([], [])\<rparr>"

section \<open>Basic facts\<close>

lemma bindE_simps [simp]: "bindE (Inl e) f = Inl e" "bindE (Inr v) f = f v"
  by (simp_all add: bindE_def)

lemma bindE_Inr_iff: "bindE m f = Inr r \<longleftrightarrow> (\<exists>v. m = Inr v \<and> f v = Inr r)"
  by (cases m) simp_all



lemma pow2_pos [simp]: "0 < pow2 e"
  by (simp add: pow2_def)

lemma pow2_powr: "pow2 e = 2 powr (of_int e)"
  by (simp add: pow2_def powr_real_of_int inverse_eq_divide)

lemma pow2_add: "pow2 (a + b) = pow2 a * pow2 b"
  by (simp add: pow2_powr powr_add)

lemma pow2_neg: "pow2 (- a) = 1 / pow2 a"
  by (simp add: pow2_powr powr_minus_divide)

lemma pow2_int: "0 \<le> e \<Longrightarrow> pow2 e = of_int (2 ^ nat e)"
  by (simp add: pow2_def)

lemma pow2_ge_1: "0 \<le> e \<Longrightarrow> 1 \<le> pow2 e"
  by (simp add: pow2_def)

lemma np_fix_int: "\<exists>k::int. np_fix z = of_int k"
  by (auto simp: np_fix_def)

lemma np_round_int: "\<exists>k::int. np_round z = of_int k"
  by (auto simp: np_round_def Let_def)

lemma np_round_of_int [simp]: "np_round (of_int k) = of_int k"
  by (simp add: np_round_def Let_def)

lemma np_fix_of_int [simp]: "np_fix (of_int k) = of_int k"
  by (simp add: np_fix_def)

lemma quant_elem_int: "m \<noteq> ''none'' \<Longrightarrow> known_quant m \<Longrightarrow> \<exists>k::int. quant_elem m v = of_int k"
  using np_fix_int[of v] np_round_int[of v] by (auto simp: quant_elem_def known_quant_def)


subsection \<open>The wrap expression\<close>

lemma wrap_range:
  assumes "0 < msb"
  shows "- 2 * msb \<le> wrap msb v \<and> wrap msb v \<le> 2 * msb"
proof -
  define z where "z = (sgn v * 2 * msb + v) / (4 * msb)"
  have zeq: "z * (4 * msb) = sgn v * 2 * msb + v" using assms by (simp add: z_def)
  have w: "wrap msb v = v - 4 * msb * np_fix z" by (simp add: wrap_def z_def)
  consider "v = 0" | "0 < v" | "v < 0" by linarith
  then show ?thesis
  proof cases
    case 1
    then have "z = 0" by (simp add: z_def)
    then show ?thesis using w 1 assms by (simp add: np_fix_def)
  next
    case 2
    then have sg: "sgn v = 1" by simp
    have zn: "0 \<le> z" using 2 assms by (simp add: z_def sg)
    have f: "np_fix z = of_int \<lfloor>z\<rfloor>" using zn by (simp add: np_fix_def)
    have b1: "of_int \<lfloor>z\<rfloor> * (4 * msb) \<le> z * (4 * msb)"
      using assms by (intro mult_right_mono) auto
    have "z < of_int \<lfloor>z\<rfloor> + 1" by linarith
    then have b2: "z * (4 * msb) < (of_int \<lfloor>z\<rfloor> + 1) * (4 * msb)"
      using assms by (intro mult_strict_right_mono) auto
    have e: "(of_int \<lfloor>z\<rfloor> + 1) * (4 * msb) = 4 * msb * of_int \<lfloor>z\<rfloor> + 4 * msb"
      "of_int \<lfloor>z\<rfloor> * (4 * msb) = 4 * msb * of_int \<lfloor>z\<rfloor>"
      by (simp_all add: algebra_simps)
    show ?thesis using b1 b2 zeq w unfolding f sg e by linarith
  next
    case 3
    then have sg: "sgn v = - 1" by simp
    have zn: "z < 0" using 3 assms by (simp add: z_def sg divide_neg_pos)
    have f: "np_fix z = of_int \<lceil>z\<rceil>" using zn by (simp add: np_fix_def)
    have b1: "z * (4 * msb) \<le> of_int \<lceil>z\<rceil> * (4 * msb)"
      using assms by (intro mult_right_mono) auto
    have "of_int \<lceil>z\<rceil> < z + 1" by linarith
    then have b2: "of_int \<lceil>z\<rceil> * (4 * msb) < (z + 1) * (4 * msb)"
      using assms by (intro mult_strict_right_mono) auto
    have e: "(z + 1) * (4 * msb) = z * (4 * msb) + 4 * msb"
      "of_int \<lceil>z\<rceil> * (4 * msb) = 4 * msb * of_int \<lceil>z\<rceil>"
      by (simp_all add: algebra_simps)
    show ?thesis using b1 b2 zeq w unfolding f sg e by linarith
  qed
qed

lemma wrap_congruent: "\<exists>k::int. wrap msb v = v - 4 * msb * of_int k"
  using np_fix_int[of "(sgn v * 2 * msb + v) / (4 * msb)"] by (auto simp: wrap_def)

subsection \<open>The steps of \<open>fixp\<close>\<close>

lemma requant_known: "known_quant m \<Longrightarrow> requant m ys = Inr (map (quant_elem m) ys)"
  by (auto simp: known_quant_def requant_def quant_elem_def[abs_def])

lemma requant_unknown: "\<not> known_quant m \<Longrightarrow> \<exists>e. requant m ys = Inl e"
  by (auto simp: known_quant_def requant_def)

lemma map2_self: "map (\<lambda>(v0, v). h v0 v) (zip xs (map f xs)) = map (\<lambda>v. h v (f v)) xs"
  by (induction xs) simp_all

lemma overflow_eq:
  "overflow self yq =
    (if ovfl (q_dict self) = ''none''
     then Inr (yq, self\<lparr>N_over_neg := 0, N_over_pos := 0, N_over := 0\<rparr>)
     else if ovfl (q_dict self) = ''sat'' \<or> ovfl (q_dict self) = ''wrap''
     then Inr (map (ovfl_elem (ovfl (q_dict self)) (MSB self) (MIN_q self) (MAX_q self)) yq,
               count_over self yq)
     else Inl (Exception ''Unknown overflow type''))"
  unfolding overflow_def Let_def count_over_def
  by (simp add: map2_self ovfl_elem_def cong: if_cong)

lemma ovfl_elem_none [simp]: "ovfl_elem ''none'' msb mn mx v = v"
  by (simp add: ovfl_elem_def)

lemma fixp_unfold:
  "fixp fb self y sc =
     bindE (requant (quant (q_dict self))
        (map (\<lambda>v. (if lower sc = ''mult'' \<or> lower sc = ''multdiv'' then v * scale_of fb self else v)
            * pow2 (WF (q_dict self))) (elems y)))
      (\<lambda>yq. bindE (overflow (self\<lparr>scale := scale_of fb self, N := N self + int (length (elems y))\<rparr>)
                 (map (\<lambda>v. v / pow2 (WF (q_dict self))) yq))
        (\<lambda>p. Inr (reshape y (if lower sc = ''div'' \<or> lower sc = ''multdiv''
                     then map (\<lambda>v. v / scale (snd p)) (fst p) else fst p),
               (snd p)\<lparr>q_dict := (q_dict (snd p))\<lparr>N_over_key := N_over (snd p)\<rparr>\<rparr>)))"
  by (simp add: fixp_def Let_def scale_of_def case_prod_unfold o_def cong: if_cong)

lemma fixp_known:
  assumes "known_quant (quant (q_dict self))" and "known_ovfl (ovfl (q_dict self))"
  shows "fixp fb self y sc =
    Inr (reshape y (map (fixp_elem fb self (lower sc)) (elems y)),
         fixp_state fb self y (lower sc))"
proof -
  consider "ovfl (q_dict self) = ''none''" | "ovfl (q_dict self) = ''sat''"
      | "ovfl (q_dict self) = ''wrap''"
    using assms(2) by (auto simp: known_ovfl_def)
  then show ?thesis
  proof cases
    case 1
    then show ?thesis
      unfolding fixp_unfold requant_known[OF assms(1)]
      by (simp add: overflow_eq fixp_elem_def[abs_def] requant_elem_def[abs_def]
          fixp_state_def Let_def o_def cong: if_cong)
  next
    case 2
    then show ?thesis
      unfolding fixp_unfold requant_known[OF assms(1)]
      by (simp add: overflow_eq fixp_elem_def[abs_def] requant_elem_def[abs_def]
          fixp_state_def Let_def o_def count_over_def cong: if_cong)
  next
    case 3
    then show ?thesis
      unfolding fixp_unfold requant_known[OF assms(1)]
      by (simp add: overflow_eq fixp_elem_def[abs_def] requant_elem_def[abs_def]
          fixp_state_def Let_def o_def count_over_def cong: if_cong)
  qed
qed

lemma fixp_unknown:
  assumes "\<not> (known_quant (quant (q_dict self)) \<and> known_ovfl (ovfl (q_dict self)))"
  shows "\<exists>e. fixp fb self y sc = Inl e"
proof (cases "known_quant (quant (q_dict self))")
  case False
  from requant_unknown[OF this] obtain e where "requant (quant (q_dict self))
        (map (\<lambda>v. (if lower sc = ''mult'' \<or> lower sc = ''multdiv'' then v * scale_of fb self else v)
            * pow2 (WF (q_dict self))) (elems y)) = Inl e" by blast
  then show ?thesis unfolding fixp_unfold by simp
next
  case True
  with assms have "\<not> known_ovfl (ovfl (q_dict self))" by simp
  then show ?thesis
    unfolding fixp_unfold requant_known[OF True]
    by (simp add: overflow_eq known_ovfl_def)
qed

lemma fixp_Inr:
  assumes "fixp fb self y sc = Inr (r, s)"
  shows "known_quant (quant (q_dict self))" and "known_ovfl (ovfl (q_dict self))"
    and "r = reshape y (map (fixp_elem fb self (lower sc)) (elems y))"
    and "s = fixp_state fb self y (lower sc)"
proof -
  have k: "known_quant (quant (q_dict self)) \<and> known_ovfl (ovfl (q_dict self))"
    using fixp_unknown[of self fb y sc] assms by auto
  then show "known_quant (quant (q_dict self))" and "known_ovfl (ovfl (q_dict self))"
    by simp_all
  from k assms fixp_known[of self fb y sc]
  show "r = reshape y (map (fixp_elem fb self (lower sc)) (elems y))"
    and "s = fixp_state fb self y (lower sc)" by simp_all
qed


lemma reshape_reshape: "reshape (reshape y vs) ws = reshape y ws"
  by (cases y) (simp_all add: reshape_def)

subsection \<open>What a configured quantizer satisfies\<close>

lemma set_qdict_Inr:
  assumes "set_qdict fb q0 d = Inr q"
  shows "0 < MSB q" and "MAX_q q = 2 * MSB q - LSB q" and "MIN_q q = - 2 * MSB q"
    and "0 \<le> WF (q_dict q)"
    and "LSB q = (if qfrmt fb = ''qint'' then 1 else pow2 (- WF (q_dict q)))"
    and "MSB q = (if qfrmt fb = ''qint'' then pow2 (WI (q_dict q) + WF (q_dict q) - 1)
                  else pow2 (WI (q_dict q) - 1))"
  using assms
  by (auto simp: set_qdict_def Let_def bindE_Inr_iff split: if_splits)


lemma pick_simps [simp]: "pick None x = x" "pick (Some v) x = v"
  by (simp_all add: pick_def)




subsection \<open>Configured quantizers and the grid\<close>

lemma set_qdict_configured: "set_qdict fb q0 d = Inr q \<Longrightarrow> configured fb q"
  using set_qdict_Inr[of fb q0 d q] by (simp add: configured_def)


lemma resetN_configured: "configured fb q \<Longrightarrow> configured fb (resetN q)"
  by (simp add: configured_def resetN_def)

lemma fixp_state_config:
  "q_dict (fixp_state fb q y s) = (q_dict q)\<lparr>N_over_key := N_over (fixp_state fb q y s)\<rparr>"
  "LSB (fixp_state fb q y s) = LSB q" "MSB (fixp_state fb q y s) = MSB q"
  "MAX_q (fixp_state fb q y s) = MAX_q q" "MIN_q (fixp_state fb q y s) = MIN_q q"
  by (simp_all add: fixp_state_def Let_def count_over_def)

lemma fixp_configured: "configured fb q \<Longrightarrow> fixp fb q y sc = Inr (r, q') \<Longrightarrow> configured fb q'"
  by (drule fixp_Inr(4)) (simp add: configured_def fixp_state_config)

lemma pow2_nonneg [simp]: "0 \<le> pow2 e"
  using pow2_pos[of e] by linarith

lemma configured_pos: "configured fb q \<Longrightarrow> 0 < MSB q \<and> 0 < LSB q"
  by (simp add: configured_def)

lemma two_pow2: "2 * pow2 (e - 1) = pow2 e"
  using pow2_add[of "e - 1" 1] by (simp add: pow2_def)

lemma configured_MIN_le_MAX:
  assumes "configured fb q" and "0 \<le> WI (q_dict q) + WF (q_dict q) + 1"
  shows "MIN_q q \<le> MAX_q q"
proof -
  have "LSB q \<le> 4 * MSB q"
  proof (cases "qfrmt fb = ''qint''")
    case True
    then have "4 * MSB q = 2 * pow2 (WI (q_dict q) + WF (q_dict q))" "LSB q = 1"
      using assms(1) two_pow2[of "WI (q_dict q) + WF (q_dict q)"] by (simp_all add: configured_def)
    moreover have "pow2 (WI (q_dict q) + WF (q_dict q) + 1) = 2 * pow2 (WI (q_dict q) + WF (q_dict q))"
      using two_pow2[of "WI (q_dict q) + WF (q_dict q) + 1"] by simp
    ultimately show ?thesis using pow2_ge_1[OF assms(2)] by simp
  next
    case False
    then have m: "4 * MSB q = 2 * pow2 (WI (q_dict q))" and l: "LSB q = pow2 (- WF (q_dict q))"
      using assms(1) two_pow2[of "WI (q_dict q)"] by (simp_all add: configured_def)
    have "2 * pow2 (WI (q_dict q)) = pow2 (WI (q_dict q) + 1)"
      using two_pow2[of "WI (q_dict q) + 1"] by simp
    also have "\<dots> = pow2 (WI (q_dict q) + WF (q_dict q) + 1) * pow2 (- WF (q_dict q))"
      using pow2_add[of "WI (q_dict q) + WF (q_dict q) + 1" "- WF (q_dict q)"] by simp
    finally have "4 * MSB q = pow2 (WI (q_dict q) + WF (q_dict q) + 1) * LSB q"
      using m l by simp
    moreover have "1 * LSB q \<le> pow2 (WI (q_dict q) + WF (q_dict q) + 1) * LSB q"
      using pow2_ge_1[OF assms(2)] l by (intro mult_right_mono) simp_all
    ultimately show ?thesis by simp
  qed
  then show ?thesis using assms(1) by (simp add: configured_def)
qed


lemma ovfl_wrap_range:
  assumes "0 < msb" and "0 \<le> lsb"
  shows "- 2 * msb \<le> ovfl_elem ''wrap'' msb (- 2 * msb) (2 * msb - lsb) v
     \<and> ovfl_elem ''wrap'' msb (- 2 * msb) (2 * msb - lsb) v \<le> 2 * msb"
  using wrap_range[OF assms(1), of v] assms(2) by (simp add: ovfl_elem_def)


lemma ovfl_grid:
  assumes "v = of_int n * lsb" and "mn = of_int a * lsb" and "mx = of_int b * lsb"
    and "4 * msb = of_int c * lsb"
  shows "\<exists>k::int. ovfl_elem m msb mn mx v = of_int k * lsb"
proof -
  obtain j :: int where j: "wrap msb v = v - 4 * msb * of_int j"
    using wrap_congruent by blast
  have "wrap msb v = v - (4 * msb) * of_int j" using j by simp
  also have "\<dots> = of_int n * lsb - (of_int c * lsb) * of_int j"
    by (simp only: assms(1,4))
  also have "\<dots> = of_int (n - c * j) * lsb" by (simp add: algebra_simps)
  finally have w: "\<exists>k::int. wrap msb v = of_int k * lsb" by blast
  have v: "\<exists>k::int. v = of_int k * lsb" "\<exists>k::int. mn = of_int k * lsb"
    "\<exists>k::int. mx = of_int k * lsb" using assms by blast+
  show ?thesis using w v by (simp add: ovfl_elem_def)
qed

lemma configured_grid:
  assumes "configured fb q" and "qfrmt fb \<noteq> ''qint''"
    and "0 \<le> WI (q_dict q) + WF (q_dict q)"
  shows "2 * MSB q = of_int (2 ^ nat (WI (q_dict q) + WF (q_dict q))) * LSB q"
    and "LSB q = 1 / pow2 (WF (q_dict q))"
proof -
  have l: "LSB q = pow2 (- WF (q_dict q))" and m: "MSB q = pow2 (WI (q_dict q) - 1)"
    using assms(1,2) by (simp_all add: configured_def)
  show "LSB q = 1 / pow2 (WF (q_dict q))" using l by (simp add: pow2_neg)
  have "2 * MSB q = pow2 (WI (q_dict q))" using m two_pow2 by simp
  also have "\<dots> = pow2 (WI (q_dict q) + WF (q_dict q)) * pow2 (- WF (q_dict q))"
    using pow2_add[of "WI (q_dict q) + WF (q_dict q)" "- WF (q_dict q)"] by simp
  also have "\<dots> = of_int (2 ^ nat (WI (q_dict q) + WF (q_dict q))) * LSB q"
    using pow2_int[OF assms(3)] l by simp
  finally show "2 * MSB q = of_int (2 ^ nat (WI (q_dict q) + WF (q_dict q))) * LSB q" .
qed

lemma requant_elem_grid:
  assumes "configured fb q" and "qfrmt fb \<noteq> ''qint''"
    and "known_quant (quant (q_dict q))" and "quant (q_dict q) \<noteq> ''none''"
  shows "\<exists>n::int. requant_elem fb q s x = of_int n * LSB q"
proof -
  obtain n :: int where "quant_elem (quant (q_dict q))
      ((if s = ''mult'' \<or> s = ''multdiv'' then x * scale_of fb q else x)
          * pow2 (WF (q_dict q))) = of_int n"
    using quant_elem_int[OF assms(4,3)] by blast
  then have "requant_elem fb q s x = of_int n / pow2 (WF (q_dict q))"
    by (simp add: requant_elem_def)
  moreover have "LSB q = 1 / pow2 (WF (q_dict q))"
    using assms(1,2) by (simp add: configured_def pow2_neg)
  ultimately show ?thesis by auto
qed

lemma fixp_elem_nonint:
  "qfrmt fb \<noteq> ''qint'' \<Longrightarrow> fixp_elem fb q s x =
     ovfl_elem (ovfl (q_dict q)) (MSB q) (MIN_q q) (MAX_q q) (requant_elem fb q s x)"
  by (simp add: fixp_elem_def scale_of_def)

lemma requant_elem_nonint:
  "qfrmt fb \<noteq> ''qint'' \<Longrightarrow> requant_elem fb q s x =
     quant_elem (quant (q_dict q)) (x * pow2 (WF (q_dict q))) / pow2 (WF (q_dict q))"
  by (simp add: requant_elem_def scale_of_def)

lemma fixp_elem_grid:
  assumes "configured fb q" and "qfrmt fb \<noteq> ''qint''"
    and "0 \<le> WI (q_dict q) + WF (q_dict q)"
    and "known_quant (quant (q_dict q))" and "quant (q_dict q) \<noteq> ''none''"
  shows "\<exists>k::int. fixp_elem fb q s x = of_int k * LSB q"
proof -
  let ?K = "2 ^ nat (WI (q_dict q) + WF (q_dict q)) :: int"
  obtain n :: int where n: "requant_elem fb q s x = of_int n * LSB q"
    using requant_elem_grid[OF assms(1,2,4,5)] by blast
  have g: "2 * MSB q = of_int ?K * LSB q" by (rule configured_grid(1)[OF assms(1-3)])
  have mx: "MAX_q q = of_int (?K - 1) * LSB q"
    using assms(1) g by (simp add: configured_def algebra_simps)
  have mn: "MIN_q q = of_int (- ?K) * LSB q"
    using assms(1) g by (simp add: configured_def algebra_simps)
  have c: "4 * MSB q = of_int (2 * ?K) * LSB q" using g by (simp add: algebra_simps)
  show ?thesis
    unfolding fixp_elem_nonint[OF assms(2)] by (rule ovfl_grid[OF n mn mx c])
qed






lemma lower_mult [simp]: "lower ''mult'' = ''mult''"
  by (simp add: lower_def lower_char_def)

subsection \<open>Counters\<close>

lemma count_true_nonneg [simp]: "0 \<le> count_true bs"
  by (simp add: count_true_def)








subsection \<open>A second call on the result\<close>









section \<open>The filter: configuration and input\<close>

text \<open>
  Claim C8. The docstring of \<^verbatim>\<open>fxfilter\<close> promises an impulse response for a scalar
  input and for \<^verbatim>\<open>x == None\<close>. The body takes \<^verbatim>\<open>len(x)\<close> before anything else looks
  at \<open>x\<close>, so both inputs raise a \<^verbatim>\<open>TypeError\<close>, for every filter state and every
  choice of the register arguments.
\<close>

theorem fxfilter_scalar_or_None_raises:
  "fxfilter fb self PyNone z_b z_a = Inl TypeError \<and>
   fxfilter fb self (Scalar v) z_b z_a = Inl TypeError"
  by (simp add: fxfilter_def Let_def)

text \<open>
  Claim C7. The docstring of \<^verbatim>\<open>init\<close> says that \<open>len(b) \<noteq> len(a)\<close> throws an error.
  The code compares no lengths: with three transversal coefficients and the single
  recursive coefficient \<open>1\<close>, construction (which runs \<^verbatim>\<open>init\<close>) returns a filter with
  \<open>L = max (len b) (len a) = 3\<close>.
\<close>

theorem init_mismatched_lengths_returns:
  "map_sum id (\<lambda>f. (b_q f, a_q f, L_attr f))
     (IIR_DF1_new (fb_frac ([1 / 2, 1 / 4, 1 / 8], [1])) p_main)
   = Inr ([1 / 2, 1 / 4, 1 / 8], [1], 3)"
  by code_simp

text \<open>
  Claim C3. The word growth of the product quantizer is computed from
  \<^verbatim>\<open>len(self.p['QCB'])\<close>, the number of keys of the coefficient quantizer's dictionary,
  not from the number of taps. For the two-tap filter below the dictionary has seven keys
  once the constructor has filled in the defaults (six as written in \<^verbatim>\<open>__main__\<close>), so
  the product quantizer gets \<open>WI = 2 + 0 + 3 = 5\<close>, where two taps would give
  \<open>2 + 0 + 1 = 3\<close>. The fractional part is \<open>3 + 5 = 8\<close> as claimed.
\<close>

theorem init_word_growth_from_dict_len:
  "map_sum id (\<lambda>f. (length (b_q f), WI (q_dict (Q_mul f)), WF (q_dict (Q_mul f))))
     (IIR_DF1_new (fb_frac ([1 / 2, 1 / 4], [1, 1 / 2])) p_main) = Inr (2, 5, 8)
   \<and> dict_len (QCB p_main) = 6
   \<and> (5 :: int) \<noteq> 2 + 0 + int (ceillog2 2)"
  by code_simp

section \<open>The quantizer: configuration\<close>

text \<open>
  Claim C9. \<^verbatim>\<open>set_qdict\<close> takes the absolute value of \<open>WF\<close> only; \<open>WI\<close> goes through
  \<^verbatim>\<open>int\<close> unchanged. Updating a default quantizer with \<open>WI = -3\<close>, \<open>WF = -15\<close> stores
  \<open>WI = -3\<close> and \<open>WF = 15\<close>.
\<close>

theorem set_qdict_keeps_negative_WI:
  "map_sum id (\<lambda>q. (WI (q_dict q), WF (q_dict q)))
     (bindE (Fixed_init (fb_frac ([], [])) empty_dict)
        (\<lambda>q. set_qdict (fb_frac ([], [])) q
           (empty_dict\<lparr>k_WI := Some (- 3), k_WF := Some (- 15)\<rparr>)))
   = Inr (- 3, 15)"
  by code_simp
section \<open>The quantizer: range, idempotence, wrap-around, counters\<close>

text \<open>
  Claim C1 (range of the result). The docstring of \<^verbatim>\<open>fixp\<close> promises a result in the
  range \<open>-2 MSB \<dots> 2 MSB - LSB\<close>, and the comment on step (4) says that the overflow
  handling returns a result in the range \<open>MIN \<dots> MAX\<close>. The wrap expression does not
  keep this: with \<open>WI = 1\<close>, \<open>WF = 6\<close>, rounding and \<^verbatim>\<open>'ovfl': 'wrap'\<close> the input \<open>-6\<close>
  is a negative overflow, the expression gives \<open>-6 - 4 trunc ((-2 - 6) / 4) = 2 = 2 MSB\<close>,
  and \<^verbatim>\<open>fixp\<close> returns \<open>2\<close>, above \<open>MAX = 127/64\<close>.
\<close>

theorem fixp_wrap_leaves_range:
  "map_sum id (\<lambda>p. (fst p, MIN_q (snd p), MAX_q (snd p)))
     (quantize (fb_frac ([], [])) (d_wrap ''round'') (Scalar (- 6)) ''mult'')
     = Inr (Scalar 2, - 2, 127 / 64)"
  by code_simp







text \<open>
  Claim C10. The value \<^verbatim>\<open>fixp\<close> returns (or the exception it raises) does not depend
  on the counters: replacing \<open>N\<close>, \<open>N_over\<close>, \<open>N_over_pos\<close>, \<open>N_over_neg\<close> and the
  dictionary entry \<^verbatim>\<open>'N_over'\<close> of the object by arbitrary values leaves it unchanged.
\<close>

theorem fixp_counters_irrelevant:
  "map_sum id fst (fixp fb (self\<lparr>N := n, N_over := a, N_over_pos := b, N_over_neg := c,
       q_dict := (q_dict self)\<lparr>N_over_key := k\<rparr>\<rparr>) y sc)
   = map_sum id fst (fixp fb self y sc)"
  unfolding fixp_unfold
  by (simp add: bindE_def overflow_eq scale_of_def count_over_def split: sum.splits cong: if_cong)

section \<open>Overflow counters\<close>




section \<open>The text of a quantized value\<close>

text \<open>
  Claim C2 (round trip through the text). \<^verbatim>\<open>dec2csd\<close> is documented to convert its
  argument to a string in CSD format, and its sibling \<^verbatim>\<open>csd2dec\<close> reads such a string.
  They do not agree: in the fractional format with \<open>WI = 0\<close>, \<open>WF = 2\<close>, rounding and
  saturation, \<open>1/2\<close> is on the grid and in range (\<^verbatim>\<open>fixp\<close> returns it unchanged);
  \<^verbatim>\<open>float2frmt\<close> renders it in the base \<^verbatim>\<open>'csd'\<close> as \<^verbatim>\<open>'+.0-'\<close>, and
  \<^verbatim>\<open>frmt2float_scalar\<close>, to which \<^verbatim>\<open>frmt2float\<close> hands a non-empty string in a fixpoint
  format, reads that text as \<open>1 - 1/4 = 3/4\<close>.
\<close>

theorem csd_text_reads_back_different:
  "map_sum id fst (quantize fb_csd (d_sat 0 2) (Scalar (1 / 2)) ''mult'') = Inr (Scalar (1 / 2))
   \<and> map_sum id fst (bindE (Fixed_init fb_csd (d_sat 0 2))
        (\<lambda>q. float2frmt fb_csd q (Scalar (1 / 2)))) = Inr (FScalar (Str ''+.0-''))
   \<and> map_sum id fst (bindE (Fixed_init fb_csd (d_sat 0 2))
        (\<lambda>q. bindE (float2frmt fb_csd q (Scalar (1 / 2)))
          (\<lambda>p. frmt2float_scalar fb_csd (snd p) ''+.0-''))) = Inr (3 / 4)"
  by code_simp


end
